theory Spec2Isabelle
  imports Complex_Main
begin

section \<open>JavaScript numbers and number formatting\<close>

text \<open>
  The mock API server computes with JavaScript numbers. A finite number is modelled by
  the rational it denotes; the three non-finite values a division or a failed table
  lookup can produce are constructors of their own. Arithmetic on finite values is exact
  here, where a double rounds: the model speaks for requests that carry whole numbers and
  halves far below \<open>2 ^ 53\<close>, as the forms produce them, and for quotients of such.
  Signed zero is not distinguished, and numbers are printed positionally at every
  magnitude (JavaScript switches to exponent notation from \<open>10 ^ 21\<close> on).
\<close>

datatype jsnum = Fin rat | PosInf | NegInf | NaN

fun js_sgn :: "jsnum \<Rightarrow> int" where
  "js_sgn (Fin x) = (if x < 0 then - 1 else if x = 0 then 0 else 1)"
| "js_sgn PosInf = 1"
| "js_sgn NegInf = - 1"
| "js_sgn NaN = 0"

text \<open>The operator \<open>*\<close>: a non-finite factor gives an infinity of the product's sign,
  \<open>Infinity * 0\<close> and anything with \<open>NaN\<close> give \<open>NaN\<close>.\<close>

fun js_mul :: "jsnum \<Rightarrow> jsnum \<Rightarrow> jsnum" where
  "js_mul (Fin a) (Fin b) = Fin (a * b)"
| "js_mul NaN y = NaN"
| "js_mul x NaN = NaN"
| "js_mul x y =
     (let s = js_sgn x * js_sgn y
      in if s = 0 then NaN else if 0 < s then PosInf else NegInf)"

text \<open>The operator \<open>-\<close>.\<close>

fun js_sub :: "jsnum \<Rightarrow> jsnum \<Rightarrow> jsnum" where
  "js_sub (Fin a) (Fin b) = Fin (a - b)"
| "js_sub NaN y = NaN"
| "js_sub x NaN = NaN"
| "js_sub PosInf PosInf = NaN"
| "js_sub NegInf NegInf = NaN"
| "js_sub PosInf y = PosInf"
| "js_sub NegInf y = NegInf"
| "js_sub x PosInf = NegInf"
| "js_sub x NegInf = PosInf"

text \<open>The operator \<open>/\<close> on two finite numbers: a zero divisor gives an infinity of the
  dividend's sign, and \<open>0 / 0\<close> gives \<open>NaN\<close>; nothing is raised.\<close>

definition js_div :: "rat \<Rightarrow> rat \<Rightarrow> jsnum" where
  "js_div a b =
     (if b = 0 then (if a = 0 then NaN else if 0 < a then PosInf else NegInf)
      else Fin (a / b))"

text \<open>The comparison \<open>x <= c\<close> against a finite literal: false for \<open>NaN\<close>.\<close>

fun js_le :: "jsnum \<Rightarrow> rat \<Rightarrow> bool" where
  "js_le (Fin x) c = (x \<le> c)"
| "js_le NegInf c = True"
| "js_le PosInf c = False"
| "js_le NaN c = False"

text \<open>\<open>Math.round\<close> rounds to the nearest integer, a half towards plus infinity.\<close>

definition Math_round :: "rat \<Rightarrow> int" where
  "Math_round x = \<lfloor>x + 1 / 2\<rfloor>"

fun Math_round_js :: "jsnum \<Rightarrow> jsnum" where
  "Math_round_js (Fin x) = Fin (of_int (Math_round x))"
| "Math_round_js v = v"

text \<open>Decimal digits of a natural number, and the text of a whole number as a template
  string interpolates it.\<close>

fun digits :: "nat \<Rightarrow> string" where
  "digits n =
     (if n < 10 then [''0123456789'' ! n]
      else digits (n div 10) @ [''0123456789'' ! (n mod 10)])"

declare digits.simps [simp del]

definition ToString_int :: "int \<Rightarrow> string" where
  "ToString_int n = (if n < 0 then ''-'' @ digits (nat (- n)) else digits (nat n))"

text \<open>
  \<open>toFixed(1)\<close>: the sign is split off, the magnitude is rounded to the nearest tenth
  (the larger one on a tie) and printed with one digit after the point, so a small
  negative number prints as \<open>-0.0\<close>. The non-finite values print their names.
\<close>

fun toFixed1 :: "jsnum \<Rightarrow> string" where
  "toFixed1 (Fin x) =
     (let n = nat \<lfloor>\<bar>x\<bar> * 10 + 1 / 2\<rfloor>;
          m = digits (n div 10) @ ''.'' @ digits (n mod 10)
      in if x < 0 then ''-'' @ m else m)"
| "toFixed1 PosInf = ''Infinity''"
| "toFixed1 NegInf = ''-Infinity''"
| "toFixed1 NaN = ''NaN''"

section \<open>The price estimator endpoint\<close>

text \<open>
  The body of a request to \<open>/api/price-estimator\<close>. The form that produces it has
  number inputs stepping by one for bedrooms and area and by a half for bathrooms, and
  the handler reads the first two with \<open>parseInt\<close> and the third with \<open>parseFloat\<close>;
  so bedrooms and area are whole numbers and bathrooms is a fraction.
\<close>

record PriceEstimateRequest =
  propertyType :: string
  bedrooms :: int
  bathrooms :: rat
  area :: int
  location :: string

record Factor =
  factor :: string
  impact :: string
  description :: string

record PriceEstimateResult =
  estimatedPrice :: jsnum
  confidence :: int
  factors :: "Factor list"
  message :: string

text \<open>
  \<open>parseInt\<close> and \<open>parseFloat\<close> print their argument and parse the text again. The
  text of a whole number is its decimal digits and the text of a number determines the
  number, so on the fields of a request both read back the value they were given.
\<close>

definition parseInt :: "int \<Rightarrow> int" where
  "parseInt n = n"

definition parseFloat :: "rat \<Rightarrow> rat" where
  "parseFloat x = x"

text \<open>The multiplier table. A key that is not in the table yields \<open>undefined\<close>
  (or an inherited member of the object), and a product with that is \<open>NaN\<close>.\<close>

definition typeMultiplier :: "string \<rightharpoonup> rat" where
  "typeMultiplier =
     [''House'' \<mapsto> 6 / 5, ''Apartment'' \<mapsto> 1, ''Land'' \<mapsto> 4 / 5]"

definition ToNumber :: "rat option \<Rightarrow> jsnum" where
  "ToNumber v = (case v of None \<Rightarrow> NaN | Some x \<Rightarrow> Fin x)"

text \<open>The handler answers every request with \<open>res.json\<close>; it has no path that rejects
  one. The error type is the one error kind a caller could be told about.\<close>

datatype error = InvalidInput string string

definition price_estimator :: "PriceEstimateRequest \<Rightarrow> error + PriceEstimateResult" where
  "price_estimator r =
     (let basePrice = 250000;
          bedroomMultiplier = of_int (parseInt (bedrooms r)) * 25000;
          bathroomMultiplier = parseFloat (bathrooms r) * 15000;
          areaMultiplier = of_int (parseInt (area r)) * 100;
          estimatedPrice =
            Math_round_js
              (js_mul (Fin (basePrice + bedroomMultiplier + bathroomMultiplier + areaMultiplier))
                      (ToNumber (typeMultiplier (propertyType r))));
          confidence =
            min 95 (70 + of_int (bedrooms r) * 2 + bathrooms r * 3 + of_int (area r) / 100);
          factors =
            [ \<lparr>factor = ''Property Type'', impact = ''Positive'',
               description = propertyType r @ '' properties have good market value in this area''\<rparr>,
              \<lparr>factor = ''Location'', impact = ''Positive'',
               description = location r @ '' is a desirable location with good amenities''\<rparr>,
              \<lparr>factor = ''Size'', impact = ''Positive'',
               description =
                 ToString_int (area r) @ '' sq.ft provides adequate living space for the market''\<rparr>,
              \<lparr>factor = ''Bedrooms'',
               impact = (if 3 \<le> bedrooms r then ''Positive'' else ''Neutral''),
               description =
                 ToString_int (bedrooms r) @ '' bedrooms '' @
                 (if 3 \<le> bedrooms r then ''meet strong market demand''
                  else ''are adequate for the area'')\<rparr> ]
      in Inr \<lparr>estimatedPrice = estimatedPrice,
              confidence = Math_round confidence,
              factors = factors,
              message = ''Price estimate generated successfully''\<rparr>)"

section \<open>The deal evaluator endpoint\<close>

text \<open>
  The body of a request to \<open>/api/deal-evaluator\<close>, and what the handler passes to
  \<open>res.json\<close>. Field names that several bodies share carry the endpoint's initial here
  (\<open>locationD\<close>, \<open>messageD\<close> for the source's \<open>location\<close>, \<open>message\<close>). The three
  fields the page displays form a record of their own, which the response extends.
\<close>

record DealEvaluationRequest =
  propertyPrice :: rat
  estimatedMarketValue :: rat
  locationD :: string

record Evaluation =
  dealScore :: string
  confidenceLevel :: int
  aiExplanation :: string

record DealEvaluationResult = Evaluation +
  messageD :: string

definition deal_evaluator :: "DealEvaluationRequest \<Rightarrow> error + DealEvaluationResult" where
  "deal_evaluator q =
     (let priceRatio = js_div (propertyPrice q) (estimatedMarketValue q);
          (dealScore, confidenceLevel, aiExplanation) =
            (if js_le priceRatio (85 / 100) then
               (''Buy'', 90,
                ''This is an excellent buying opportunity. The property is priced at '' @
                toFixed1 (js_mul priceRatio (Fin 100)) @
                ''% of its estimated market value, representing a '' @
                toFixed1 (js_mul (js_sub (Fin 1) priceRatio) (Fin 100)) @
                ''% discount. This suggests strong potential for appreciation and good value for your investment.'')
             else if js_le priceRatio (95 / 100) then
               (''Buy'', 80,
                ''This is a good buying opportunity. The property is priced at '' @
                toFixed1 (js_mul priceRatio (Fin 100)) @
                ''% of its estimated market value, offering a reasonable discount. The location and market conditions support this investment decision.'')
             else if js_le priceRatio (105 / 100) then
               (''Hold'', 75,
                ''This property is priced close to its estimated market value ('' @
                toFixed1 (js_mul priceRatio (Fin 100)) @
                ''%). While not a bargain, it may be worth considering if you're looking for a stable investment in a good location. Monitor for price changes.'')
             else if js_le priceRatio (115 / 100) then
               (''Hold'', 70,
                ''This property is priced above its estimated market value ('' @
                toFixed1 (js_mul priceRatio (Fin 100)) @
                ''%). Consider waiting for a price reduction or negotiating better terms. The premium may be justified by unique features or location benefits.'')
             else
               (''Avoid'', 85,
                ''This property is significantly overpriced at '' @
                toFixed1 (js_mul priceRatio (Fin 100)) @
                ''% of its estimated market value. The '' @
                toFixed1 (js_mul (js_sub priceRatio (Fin 1)) (Fin 100)) @
                ''% premium is too high for a sound investment. Consider other options or wait for price adjustments.''))
      in Inr \<lparr>dealScore = dealScore,
              confidenceLevel = confidenceLevel,
              aiExplanation = aiExplanation,
              messageD = ''Deal evaluation completed successfully''\<rparr>)"

text \<open>
  The calculation the DealEvaluator page falls back to when the call to the server
  fails. It reads the two prices of the form data, the object that was posted, with
  \<open>parseFloat\<close> and stores the three fields it displays.
\<close>

definition fallback_evaluation :: "DealEvaluationRequest \<Rightarrow> Evaluation" where
  "fallback_evaluation formData =
     (let propertyPrice = parseFloat (propertyPrice formData);
          marketValue = parseFloat (estimatedMarketValue formData);
          priceRatio = js_div propertyPrice marketValue;
          (dealScore, confidenceLevel, aiExplanation) =
            (if js_le priceRatio (85 / 100) then
               (''Buy'', 90,
                ''This is an excellent buying opportunity. The property is priced at '' @
                toFixed1 (js_mul priceRatio (Fin 100)) @
                ''% of its estimated market value, representing a '' @
                toFixed1 (js_mul (js_sub (Fin 1) priceRatio) (Fin 100)) @
                ''% discount. This suggests strong potential for appreciation and good value for your investment.'')
             else if js_le priceRatio (95 / 100) then
               (''Buy'', 80,
                ''This is a good buying opportunity. The property is priced at '' @
                toFixed1 (js_mul priceRatio (Fin 100)) @
                ''% of its estimated market value, offering a reasonable discount. The location and market conditions support this investment decision.'')
             else if js_le priceRatio (105 / 100) then
               (''Hold'', 75,
                ''This property is priced close to its estimated market value ('' @
                toFixed1 (js_mul priceRatio (Fin 100)) @
                ''%). While not a bargain, it may be worth considering if you're looking for a stable investment in a good location. Monitor for price changes.'')
             else if js_le priceRatio (115 / 100) then
               (''Hold'', 70,
                ''This property is priced above its estimated market value ('' @
                toFixed1 (js_mul priceRatio (Fin 100)) @
                ''%). Consider waiting for a price reduction or negotiating better terms. The premium may be justified by unique features or location benefits.'')
             else
               (''Avoid'', 85,
                ''This property is significantly overpriced at '' @
                toFixed1 (js_mul priceRatio (Fin 100)) @
                ''% of its estimated market value. The '' @
                toFixed1 (js_mul (js_sub priceRatio (Fin 1)) (Fin 100)) @
                ''% premium is too high for a sound investment. Consider other options or wait for price adjustments.''))
      in \<lparr>dealScore = dealScore,
          confidenceLevel = confidenceLevel,
          aiExplanation = aiExplanation\<rparr>)"

section \<open>The location analyzer endpoint and the server\<close>

text \<open>
  The location analyzer draws from \<open>Math.random\<close>, the one piece of ambient state a
  handler of this server reads. The environment is the sequence of draws still to come;
  a draw returns its head and leaves the rest.
\<close>

type_synonym env = "nat \<Rightarrow> rat"

definition Math_random :: "env \<Rightarrow> rat \<times> env" where
  "Math_random e = (e 0, \<lambda>n. e (Suc n))"

text \<open>\<open>xs[Math.floor(u * xs.length)]\<close>: an index outside the array reads \<open>undefined\<close>.\<close>

definition pick :: "'a list \<Rightarrow> rat \<Rightarrow> 'a option" where
  "pick xs u =
     (let i = \<lfloor>u * of_nat (length xs)\<rfloor>
      in if 0 \<le> i \<and> i < int (length xs) then Some (xs ! nat i) else None)"

record Summary =
  overallScore :: int
  rating :: string
  descriptionS :: string

record LocationAnalysisRequest =
  locationL :: string

record LocationAnalysisResult =
  safetyRating :: "string option"
  nearbySchools :: "string list"
  transportAccess :: "string list"
  summary :: "Summary option"
  messageL :: string

definition location_analyzer ::
  "env \<Rightarrow> LocationAnalysisRequest \<Rightarrow> (error + LocationAnalysisResult) \<times> env" where
  "location_analyzer e r =
     (let safetyRatings = [''A+'', ''A'', ''B+'', ''B'', ''C+''];
          (u, e1) = Math_random e;
          safetyRating = pick safetyRatings u;
          nearbySchools =
            [''Lincoln Elementary School (0.5 miles)'',
             ''Riverside Middle School (1.2 miles)'',
             ''Central High School (1.8 miles)'',
             ''St. Mary's Academy (2.1 miles)'',
             ''Oakwood Charter School (2.5 miles)'',
             ''Maple Elementary School (1.0 miles)'',
             ''Valley Middle School (1.5 miles)'',
             ''Riverside High School (2.0 miles)''];
          transportAccess =
            [''Metro Station - 0.3 miles'',
             ''Bus Stop #15 - 0.1 miles'',
             ''Bus Stop #23 - 0.4 miles'',
             ''Train Station - 1.5 miles'',
             ''Bike Path Access - 0.2 miles'',
             ''Express Bus Route - 0.6 miles'',
             ''Park & Ride - 2.0 miles'',
             ''Light Rail Station - 1.8 miles''];
          summaries =
            [\<lparr>overallScore = 85, rating = ''Excellent'',
              descriptionS = ''This location offers excellent amenities, good schools, and convenient transportation access.''\<rparr>,
             \<lparr>overallScore = 78, rating = ''Good'',
              descriptionS = ''A solid neighborhood with good schools and decent transportation options.''\<rparr>,
             \<lparr>overallScore = 92, rating = ''Excellent'',
              descriptionS = ''Premium location with top-rated schools and excellent transport connectivity.''\<rparr>];
          (v, e2) = Math_random e1;
          summary = pick summaries v
      in (Inr \<lparr>safetyRating = safetyRating,
               nearbySchools = take 5 nearbySchools,
               transportAccess = take 5 transportAccess,
               summary = summary,
               messageL = ''Location analysis completed successfully''\<rparr>,
          e2))"

text \<open>
  One request to the server: the route selects the handler, and the handler's answer is
  returned with the environment it leaves behind. The two formula handlers are the
  functions above; they are given no environment at all.
\<close>

datatype api_request =
    PostPriceEstimator PriceEstimateRequest
  | PostLocationAnalyzer LocationAnalysisRequest
  | PostDealEvaluator DealEvaluationRequest

datatype api_response =
    PriceEstimate "error + PriceEstimateResult"
  | LocationAnalysis "error + LocationAnalysisResult"
  | DealEvaluation "error + DealEvaluationResult"

fun serve :: "env \<Rightarrow> api_request \<Rightarrow> api_response \<times> env" where
  "serve e (PostPriceEstimator r) = (PriceEstimate (price_estimator r), e)"
| "serve e (PostLocationAnalyzer r) =
     (let (a, e') = location_analyzer e r in (LocationAnalysis a, e'))"
| "serve e (PostDealEvaluator q) = (DealEvaluation (deal_evaluator q), e)"

section \<open>Requests the form admits\<close>

text \<open>
  The price estimator form offers the three property types in a select box and bounds
  its number inputs: bedrooms and bathrooms from 0 to 10, area from 100 to 50000, with
  bathrooms stepping by a half.
\<close>

definition valid_request :: "PriceEstimateRequest \<Rightarrow> bool" where
  "valid_request r =
     ((propertyType r = ''House'' \<or> propertyType r = ''Apartment'' \<or> propertyType r = ''Land'') \<and>
      0 \<le> bedrooms r \<and> bedrooms r \<le> 10 \<and>
      0 \<le> bathrooms r \<and> bathrooms r \<le> 10 \<and>
      of_int \<lfloor>2 * bathrooms r\<rfloor> = 2 * bathrooms r \<and>
      100 \<le> area r \<and> area r \<le> 50000)"

section \<open>Auxiliary facts\<close>

lemma typeMultiplier_cases:
  "typeMultiplier t =
     (if t = ''Land'' then Some (4 / 5) else if t = ''Apartment'' then Some 1
      else if t = ''House'' then Some (6 / 5) else None)"
  by (simp add: typeMultiplier_def)

lemma typeMultiplier_nonneg: "typeMultiplier t = Some m \<Longrightarrow> 0 \<le> m"
  by (auto simp: typeMultiplier_cases split: if_splits)

lemma valid_typeMultiplier: "valid_request r \<Longrightarrow> propertyType r \<in> dom typeMultiplier"
  by (auto simp: valid_request_def typeMultiplier_def)

lemma Math_round_round: "Math_round x = round x"
  by (simp add: Math_round_def round_def)

lemma round_min_95: "round (min 95 (x::rat)) = min 95 (round x)"
proof (cases "95 \<le> x")
  case True
  then have "round (95::rat) \<le> round x" by (rule round_mono)
  then show ?thesis using True by (simp add: min_def)
next
  case False
  then have "round x \<le> round (95::rat)" by (intro round_mono) simp
  then show ?thesis using False by (simp add: min_def)
qed

lemma floor_numeral_div_rat: "\<lfloor>numeral a / numeral b :: rat\<rfloor> = numeral a div numeral b"
  by (metis floor_divide_of_int_eq of_int_numeral)

lemma js_div_pos: "b \<noteq> 0 \<Longrightarrow> js_div a b = Fin (a / b)"
  by (simp add: js_div_def)

text \<open>The tier of a deal, apart from its explanation text: the handler's chain of
  comparisons on the quotient it computed.\<close>

lemma deal_evaluator_tier:
  "\<exists>res. deal_evaluator q = Inr res \<and>
     messageD res = ''Deal evaluation completed successfully'' \<and>
     (dealScore res, confidenceLevel res) =
       (let priceRatio = js_div (propertyPrice q) (estimatedMarketValue q)
        in if js_le priceRatio (85 / 100) then (''Buy'', 90)
           else if js_le priceRatio (95 / 100) then (''Buy'', 80)
           else if js_le priceRatio (105 / 100) then (''Hold'', 75)
           else if js_le priceRatio (115 / 100) then (''Hold'', 70)
           else (''Avoid'', 85))"
  by (simp add: deal_evaluator_def Let_def del: append.simps)

lemma deal_evaluator_total: "\<exists>res. deal_evaluator q = Inr res"
  using deal_evaluator_tier [of q] by blast

lemmas price_estimator_unfold =
  price_estimator_def Let_def parseInt_def parseFloat_def ToNumber_def typeMultiplier_cases
  Math_round_round

section \<open>Price estimation\<close>

text \<open>
  C4. For every request the form admits, the confidence is
  \<open>min 95 (round (70 + bedrooms * 2 + bathrooms * 3 + area / 100))\<close>, and it lies
  between 70 and 95. The handler takes the minimum before it rounds; the two orders agree.
\<close>

theorem confidence_formula_and_range:
  assumes "valid_request r"
  shows "\<exists>res. price_estimator r = Inr res \<and>
           confidence res =
             min 95 (round (70 + of_int (bedrooms r) * 2 + bathrooms r * 3 + of_int (area r) / 100)) \<and>
           70 \<le> confidence res \<and> confidence res \<le> 95"
proof -
  let ?x = "70 + rat_of_int (bedrooms r) * 2 + bathrooms r * 3 + rat_of_int (area r) / 100"
  from assms have "0 \<le> rat_of_int (bedrooms r)" "0 \<le> bathrooms r" "0 \<le> rat_of_int (area r)"
    by (simp_all add: valid_request_def)
  then have "70 \<le> ?x" by simp
  then have "round (70::rat) \<le> round ?x" by (rule round_mono)
  then have "70 \<le> min 95 (round ?x)" by simp
  then show ?thesis
    by (simp add: price_estimator_unfold round_min_95)
qed

theorem confidence_formula_and_range_witness:
  "valid_request
     \<lparr>propertyType = ''Apartment'', bedrooms = 2, bathrooms = 1 / 2, area = 200, location = ''Galle''\<rparr> \<and>
   (\<exists>res. price_estimator
            \<lparr>propertyType = ''Apartment'', bedrooms = 2, bathrooms = 1 / 2, area = 200, location = ''Galle''\<rparr>
          = Inr res \<and> confidence res = 78)"
  using confidence_formula_and_range
    [of "\<lparr>propertyType = ''Apartment'', bedrooms = 2, bathrooms = 1 / 2, area = 200, location = ''Galle''\<rparr>"]
  by (auto simp: valid_request_def round_def floor_eq_iff)

text \<open>
  C5. The factors of a result are exactly four, labelled Property Type, Location, Size
  and Bedrooms in this order; the first three have impact Positive, and the Bedrooms
  entry has impact Positive when there are at least 3 bedrooms and Neutral otherwise.
  This holds for every request, admitted by the form or not.
\<close>

theorem factors_shape:
  "\<exists>res. price_estimator r = Inr res \<and>
     length (factors res) = 4 \<and>
     map factor (factors res) = [''Property Type'', ''Location'', ''Size'', ''Bedrooms''] \<and>
     map impact (factors res) =
       [''Positive'', ''Positive'', ''Positive'',
        if 3 \<le> bedrooms r then ''Positive'' else ''Neutral'']"
  by (simp add: price_estimator_def Let_def)

theorem factors_shape_witness:
  "\<exists>res. price_estimator
           \<lparr>propertyType = ''House'', bedrooms = 2, bathrooms = 1, area = 900, location = ''Matara''\<rparr>
         = Inr res \<and>
     map impact (factors res) = [''Positive'', ''Positive'', ''Positive'', ''Neutral'']"
  using factors_shape
    [of "\<lparr>propertyType = ''House'', bedrooms = 2, bathrooms = 1, area = 900, location = ''Matara''\<rparr>"]
  by auto

text \<open>
  C6, as the handler behaves. The claim that a request outside the form's bounds is
  rejected with an InvalidInput error fails: with 11 bedrooms the handler answers as for
  any other request, with the formula's price and the success message.
\<close>

theorem out_of_range_counterexample:
  "\<not> valid_request
       \<lparr>propertyType = ''House'', bedrooms = 11, bathrooms = 3, area = 2500, location = ''Kandy''\<rparr> \<and>
   price_estimator
     \<lparr>propertyType = ''House'', bedrooms = 11, bathrooms = 3, area = 2500, location = ''Kandy''\<rparr> =
   Inr \<lparr>estimatedPrice = Fin 984000, confidence = 95,
        factors =
          [\<lparr>factor = ''Property Type'', impact = ''Positive'',
            description = ''House properties have good market value in this area''\<rparr>,
           \<lparr>factor = ''Location'', impact = ''Positive'',
            description = ''Kandy is a desirable location with good amenities''\<rparr>,
           \<lparr>factor = ''Size'', impact = ''Positive'',
            description = ''2500 sq.ft provides adequate living space for the market''\<rparr>,
           \<lparr>factor = ''Bedrooms'', impact = ''Positive'',
            description = ''11 bedrooms meet strong market demand''\<rparr>],
        message = ''Price estimate generated successfully''\<rparr>"
  by (simp add: valid_request_def price_estimator_def Let_def parseInt_def parseFloat_def
      ToNumber_def typeMultiplier_def Math_round_def ToString_int_def digits.simps
      floor_numeral_div_rat)

text \<open>
  C6, amended. The price estimator is total: it answers every request, admitted by the
  form or not, with a result carrying the success message, and never with an error.
\<close>

theorem price_estimator_never_fails:
  "\<exists>res. price_estimator r = Inr res \<and>
     message res = ''Price estimate generated successfully''"
  by (simp add: price_estimator_def Let_def)

section \<open>Deal evaluation\<close>

text \<open>
  C3, as the handler behaves. The claim that an estimated market value of zero makes the
  evaluation fail with an InvalidInput error fails: the division yields \<open>Infinity\<close>,
  every comparison is false, and the handler answers Avoid with confidence 85.
\<close>

theorem zero_market_value_counterexample:
  "deal_evaluator \<lparr>propertyPrice = 350000, estimatedMarketValue = 0, locationD = ''Colombo''\<rparr> =
     Inr \<lparr>dealScore = ''Avoid'', confidenceLevel = 85,
          aiExplanation = ''This property is significantly overpriced at Infinity% of its estimated market value. The Infinity% premium is too high for a sound investment. Consider other options or wait for price adjustments.'',
          messageD = ''Deal evaluation completed successfully''\<rparr>"
  by (simp add: deal_evaluator_def js_div_def)

text \<open>
  C3, amended. For an estimated market value that is zero or negative the evaluation
  does not fail: it returns a result carrying the success message.
\<close>

theorem deal_nonpositive_market_value:
  assumes "estimatedMarketValue q \<le> 0"
  shows "\<exists>res. deal_evaluator q = Inr res \<and>
           messageD res = ''Deal evaluation completed successfully''"
  using deal_evaluator_tier [of q] by blast

theorem deal_nonpositive_market_value_witness:
  "\<exists>res. deal_evaluator
           \<lparr>propertyPrice = 350000, estimatedMarketValue = - 400000, locationD = ''A''\<rparr> = Inr res \<and>
     messageD res = ''Deal evaluation completed successfully''"
  using deal_nonpositive_market_value
      [of "\<lparr>propertyPrice = 350000, estimatedMarketValue = - 400000, locationD = ''A''\<rparr>"]
  by simp

text \<open>
  C9. The server's deal evaluator and the fallback calculation of the DealEvaluator page
  agree: on the same two prices both give the same deal score, the same confidence level
  and the same explanation text. This holds for every pair of prices, positive or not.
\<close>

theorem fallback_matches_server:
  "\<exists>res. deal_evaluator q = Inr res \<and>
     dealScore res = dealScore (fallback_evaluation q) \<and>
     confidenceLevel res = confidenceLevel (fallback_evaluation q) \<and>
     aiExplanation res = aiExplanation (fallback_evaluation q)"
  by (simp add: deal_evaluator_def fallback_evaluation_def parseFloat_def Let_def split_def
      del: append.simps)

theorem fallback_matches_server_witness:
  "\<exists>res. deal_evaluator \<lparr>propertyPrice = 350000, estimatedMarketValue = 400000, locationD = ''Colombo''\<rparr>
         = Inr res \<and>
     aiExplanation res = ''This is a good buying opportunity. The property is priced at 87.5% of its estimated market value, offering a reasonable discount. The location and market conditions support this investment decision.'' \<and>
     aiExplanation
       (fallback_evaluation
          \<lparr>propertyPrice = 350000, estimatedMarketValue = 400000, locationD = ''Colombo''\<rparr>)
       = aiExplanation res"
  using fallback_matches_server
    [of "\<lparr>propertyPrice = 350000, estimatedMarketValue = 400000, locationD = ''Colombo''\<rparr>"]
  by (auto simp: deal_evaluator_def js_div_def digits.simps floor_numeral_div_rat)

section \<open>Determinism\<close>

text \<open>
  The location analyzer reads the random draws: two environments give two answers.
\<close>

lemma location_analyzer_reads_draws:
  "fst (serve (\<lambda>n. 0) (PostLocationAnalyzer r)) \<noteq>
   fst (serve (\<lambda>n. 1 / 2) (PostLocationAnalyzer r))"
  by (simp add: location_analyzer_def Math_random_def pick_def Let_def floor_numeral_div_rat)

end
